theory Spec2Isabelle
  imports Complex_Main "HOL-Library.Sublist"
begin

section \<open>The retry executor of services/geminiService.ts\<close>

subsection \<open>Thrown values\<close>

text \<open>
  The values the three remote calls reject with are error objects: the SDK's ApiError
  carries a numeric \<open>status\<close> and a string \<open>message\<close>, every other Error has a
  \<open>message\<close> and no \<open>status\<close>. A field that is missing (\<open>undefined\<close>) is
  \<open>None\<close>. \<open>err_name\<close> is the object's \<open>name\<close> (Error, TypeError, ApiError); the
  executor never reads it.
\<close>

record js_error =
  err_name :: string
  status :: "int option"
  message :: "string option"

text \<open>
  \<open>String.prototype.includes\<close>: does the needle occur in the string as a contiguous
  run of characters, at any position.
\<close>

fun str_includes :: "string \<Rightarrow> string \<Rightarrow> bool" where
  "str_includes [] needle = (needle = [])"
| "str_includes (c # cs) needle = (prefix needle (c # cs) \<or> str_includes cs needle)"

text \<open>
  Lines 18-20. \<open>error.status === 429\<close> is strict equality with the number;
  \<open>error.message?.includes(...)\<close> is \<open>undefined\<close> (falsy) when there is no message.
  The disjuncts are kept in the order of the source.
\<close>

definition isRetriableError :: "js_error \<Rightarrow> bool" where
  "isRetriableError error =
     (status error = Some 429 \<or>
      (case message error of
         None \<Rightarrow> False
       | Some m \<Rightarrow> str_includes m ''Requested entity was not found.'') \<or>
      status error = Some 403)"

subsection \<open>Outcomes and effects\<close>

text \<open>
  A call of the executor ends in one of three ways: \<open>return await fn()\<close> (line 15),
  \<open>throw error\<close> with the value caught from the operation (line 23), or the
  \<open>throw new Error("Maximum retry attempts reached.")\<close> after the loop (line 30).
  The last one is a fresh object, so it is a constructor of its own.
\<close>

datatype 'a outcome = Returned 'a | Rethrown js_error | MaxAttemptsReached

definition max_attempts_error :: js_error where
  "max_attempts_error =
     \<lparr>err_name = ''Error'', status = None,
      message = Some ''Maximum retry attempts reached.''\<rparr>"

text \<open>What the caller's \<open>catch\<close> receives, if anything.\<close>

fun thrown_value :: "'a outcome \<Rightarrow> js_error option" where
  "thrown_value (Returned v) = None"
| "thrown_value (Rethrown e) = Some e"
| "thrown_value MaxAttemptsReached = Some max_attempts_error"

text \<open>
  The effects of the executor, in the order they happen: a call of \<open>fn\<close> (line 15),
  the \<open>console.warn\<close> of line 25 with the attempt number \<open>i + 1\<close> and the delay, and the
  \<open>setTimeout\<close> of line 26 with its delay in milliseconds.
\<close>

datatype event = Invoked | Warned int int js_error | Slept int

fun invocations :: "event list \<Rightarrow> nat" where
  "invocations [] = 0"
| "invocations (Invoked # evs) = Suc (invocations evs)"
| "invocations (_ # evs) = invocations evs"

fun delays :: "event list \<Rightarrow> int list" where
  "delays [] = []"
| "delays (Slept d # evs) = d # delays evs"
| "delays (_ # evs) = delays evs"

subsection \<open>withExponentialBackoff\<close>

text \<open>
  The parameter \<open>attempts\<close> is a JavaScript number. The loop compares it with the counter,
  so it matters that it need not be whole: it is modelled as a finite number, which may be
  a fraction and of either sign, or \<open>NaN\<close>. (With \<open>Infinity\<close> the loop of the source need
  not end; that value is left out.) Every comparison with \<open>NaN\<close> is false, and
  \<open>NaN - 1\<close> is \<open>NaN\<close>.
\<close>

datatype js_number = NaN | Num rat

text \<open>A whole number of attempts.\<close>

definition whole :: "int \<Rightarrow> js_number" where
  "whole n = Num (of_int n)"

text \<open>\<open>i < x\<close>, \<open>x - 1\<close> and \<open>i === x\<close>, for the whole-number counter \<open>i\<close>.\<close>

fun js_lt :: "int \<Rightarrow> js_number \<Rightarrow> bool" where
  "js_lt i NaN = False"
| "js_lt i (Num r) = (of_int i < r)"

fun js_minus_one :: "js_number \<Rightarrow> js_number" where
  "js_minus_one NaN = NaN"
| "js_minus_one (Num r) = Num (r - 1)"

fun js_strict_eq :: "int \<Rightarrow> js_number \<Rightarrow> bool" where
  "js_strict_eq i NaN = False"
| "js_strict_eq i (Num r) = (of_int i = r)"

text \<open>
  The operation \<open>fn\<close> is a zero-argument asynchronous function: it reads and changes the
  world \<open>'w\<close> (the remote service, the network, the clock) and either resolves with a value
  (\<open>Inr\<close>) or rejects with an error (\<open>Inl\<close>). \<open>delay\<close> is a whole number of
  milliseconds, of either sign.

  \<open>retry_loop\<close> is the \<open>for\<close> loop of lines 13-29 from the counter value \<open>i\<close> on, followed
  by line 30.
\<close>

type_synonym ('w, 'a) operation = "'w \<Rightarrow> (js_error + 'a) \<times> 'w"

function retry_loop ::
  "('w, 'a) operation \<Rightarrow> js_number \<Rightarrow> int \<Rightarrow> int \<Rightarrow> 'w \<Rightarrow> 'a outcome \<times> event list \<times> 'w" where
  "retry_loop fn attempts i delay w =
     (if js_lt i attempts then
        (case fn w of
           (Inr v, w') \<Rightarrow> (Returned v, [Invoked], w')
         | (Inl error, w') \<Rightarrow>
             if js_strict_eq i (js_minus_one attempts) \<or> \<not> isRetriableError error
             then (Rethrown error, [Invoked], w')
             else (case retry_loop fn attempts (i + 1) (delay * 2) w' of
                     (out, evs, w'') \<Rightarrow>
                       (out, Invoked # Warned (i + 1) delay error # Slept delay # evs, w'')))
      else (MaxAttemptsReached, [], w))"
  by pat_completeness auto
termination
  by (relation "measure (\<lambda>(fn, attempts, i, delay, w).
                  case attempts of NaN \<Rightarrow> 0 | Num r \<Rightarrow> nat (\<lceil>r\<rceil> - i))")
     (auto split: js_number.splits simp: less_ceiling_iff)

declare retry_loop.simps [simp del]

definition withExponentialBackoff ::
  "('w, 'a) operation \<Rightarrow> js_number \<Rightarrow> int \<Rightarrow> 'w \<Rightarrow> 'a outcome \<times> event list \<times> 'w" where
  "withExponentialBackoff fn attempts delay w = retry_loop fn attempts 0 delay w"

text \<open>The call with both default arguments, \<open>attempts = 3\<close> and \<open>delay = 1000\<close>.\<close>

definition withExponentialBackoff_default ::
  "('w, 'a) operation \<Rightarrow> 'w \<Rightarrow> 'a outcome \<times> event list \<times> 'w" where
  "withExponentialBackoff_default fn w = withExponentialBackoff fn (whole 3) 1000 w"

text \<open>The world after the first \<open>n\<close> calls of the operation.\<close>

fun world_after :: "('w, 'a) operation \<Rightarrow> nat \<Rightarrow> 'w \<Rightarrow> 'w" where
  "world_after fn 0 w = w"
| "world_after fn (Suc n) w = world_after fn n (snd (fn w))"

text \<open>The three components of the executor's result.\<close>

definition outcome_of :: "'a outcome \<times> event list \<times> 'w \<Rightarrow> 'a outcome" where
  "outcome_of r = fst r"

definition events_of :: "'a outcome \<times> event list \<times> 'w \<Rightarrow> event list" where
  "events_of r = fst (snd r)"

definition world_of :: "'a outcome \<times> event list \<times> 'w \<Rightarrow> 'w" where
  "world_of r = snd (snd r)"

text \<open>
  The operation rejects with a retriable error on each of its next \<open>n\<close> calls, starting
  in world \<open>w\<close>.
\<close>

fun fails_retriably :: "('w, 'a) operation \<Rightarrow> nat \<Rightarrow> 'w \<Rightarrow> bool" where
  "fails_retriably fn 0 w = True"
| "fails_retriably fn (Suc n) w =
     (case fn w of
        (Inl e, w') \<Rightarrow> isRetriableError e \<and> fails_retriably fn n w'
      | (Inr v, w') \<Rightarrow> False)"

text \<open>
  The classification in the words of the specification: a "too many requests" status,
  a "forbidden" status, or a message saying that the requested entity was not found.
  \<^const>\<open>sublist\<close> is the library's notion of a contiguous sublist.
\<close>

definition spec_retriable :: "js_error \<Rightarrow> bool" where
  "spec_retriable e =
     (status e = Some 429 \<or> status e = Some 403 \<or>
      (case message e of
         None \<Rightarrow> False
       | Some m \<Rightarrow> sublist ''Requested entity was not found.'' m))"

section \<open>The three remote calls\<close>

subsection \<open>The SDK's request and response objects\<close>

text \<open>
  The objects of @google/genai that the source builds and reads, with the fields it
  touches. Every field the SDK declares optional is an option.
\<close>

record image =
  imageBytes :: "string option"
  image_mimeType :: "string option"

record generated_image =
  gen_image :: "image option"

record generate_images_response =
  generatedImages :: "generated_image list option"

record blob =
  mimeType :: "string option"
  data :: "string option"

record part =
  part_text :: "string option"
  inlineData :: "blob option"

record content =
  parts :: "part list option"
  content_role :: "string option"

record candidate =
  cand_content :: "content option"

text \<open>
  \<open>response_text\<close> is the value of the SDK's \<open>text\<close> getter on the response, whose code
  is not part of this repository: it is taken as given, \<open>None\<close> for \<open>undefined\<close>.
\<close>

record generate_content_response =
  candidates :: "candidate list option"
  response_text :: "string option"

record generate_images_config =
  numberOfImages :: nat
  aspectRatio :: string
  outputMimeType :: string

record generate_images_parameters =
  gi_model :: string
  gi_prompt :: string
  gi_config :: generate_images_config

record generate_content_parameters =
  gc_model :: string
  gc_contents :: content

record chat_parameters =
  chat_model :: string
  systemInstruction :: content
  chat_history :: "content list"

text \<open>The \<open>ChatMessage\<close> interface of lines 123-126.\<close>

datatype chat_role = User | Model

record ChatMessage =
  role :: chat_role
  msg_text :: string

text \<open>
  The remote service, seen through the SDK: each call takes the request object and the
  state \<open>'s\<close> of the service (its credential, quota and load included) and resolves with
  a response or rejects with an error. A chat call is \<open>ai.chats.create\<close> followed by
  \<open>chat.sendMessage\<close>: it takes the parameters of the chat and the new message.
\<close>

type_synonym 's generateImages =
  "generate_images_parameters \<Rightarrow> 's \<Rightarrow> (js_error + generate_images_response) \<times> 's"

type_synonym 's generateContent =
  "generate_content_parameters \<Rightarrow> 's \<Rightarrow> (js_error + generate_content_response) \<times> 's"

type_synonym 's sendMessage =
  "chat_parameters \<Rightarrow> string \<Rightarrow> 's \<Rightarrow> (js_error + generate_content_response) \<times> 's"

text \<open>
  The world of a remote call is the state of the service together with what
  \<open>console.error\<close> has printed: a label and the error.
\<close>

type_synonym console = "(string \<times> js_error) list"

definition console_error :: "string \<Rightarrow> js_error \<Rightarrow> console \<Rightarrow> console" where
  "console_error label e c = c @ [(label, e)]"

text \<open>A template literal prints \<open>undefined\<close> for a missing value.\<close>

fun interpolate :: "string option \<Rightarrow> string" where
  "interpolate None = ''undefined''"
| "interpolate (Some s) = s"

subsection \<open>generateImageGemini\<close>

text \<open>
  Reading \<open>.imageBytes\<close> of an \<open>image\<close> that is \<open>undefined\<close> throws this TypeError (the
  message is V8's; no engine's message for it mentions a requested entity).
\<close>

definition imageBytes_of_undefined :: js_error where
  "imageBytes_of_undefined =
     \<lparr>err_name = ''TypeError'', status = None,
      message = Some ''Cannot read properties of undefined (reading 'imageBytes')''\<rparr>"

text \<open>
  Lines 62-65. \<open>response.generatedImages\<close> is truthy when it is an array, also an empty
  one; \<open>response.generatedImages[0]\<close> is \<open>undefined\<close> for an empty array and an object
  otherwise; \<open>.image.imageBytes\<close> reads through \<open>image\<close> with no guard; a string is truthy
  when it is not empty.
\<close>

definition generated_image_result :: "generate_images_response \<Rightarrow> js_error + string option" where
  "generated_image_result response =
     (case generatedImages response of
        None \<Rightarrow> Inr None
      | Some [] \<Rightarrow> Inr None
      | Some (first # _) \<Rightarrow>
          (case gen_image first of
             None \<Rightarrow> Inl imageBytes_of_undefined
           | Some img \<Rightarrow>
               (case imageBytes img of
                  None \<Rightarrow> Inr None
                | Some bytes \<Rightarrow>
                    if bytes = [] then Inr None
                    else Inr (Some (''data:image/png;base64,'' @ bytes)))))"

definition generateImages_parameters :: "string \<Rightarrow> string \<Rightarrow> generate_images_parameters" where
  "generateImages_parameters prompt ratio =
     \<lparr>gi_model = ''imagen-4.0-generate-001'',
      gi_prompt = prompt @ '', high quality, professional, highly detailed.'',
      gi_config = \<lparr>numberOfImages = 1, aspectRatio = ratio, outputMimeType = ''image/png''\<rparr>\<rparr>"

text \<open>
  The arrow function of lines 46-70: the remote call and the extraction are both inside
  the \<open>try\<close>, so an error of either is printed and thrown again.
\<close>

definition generateImage_operation ::
  "'s generateImages \<Rightarrow> string \<Rightarrow> string \<Rightarrow> ('s \<times> console, string option) operation" where
  "generateImage_operation remote prompt ratio w =
     (case w of (s, c) \<Rightarrow>
        (case remote (generateImages_parameters prompt ratio) s of
           (Inl error, s') \<Rightarrow>
             (Inl error, (s', console_error ''Imagen image generation error:'' error c))
         | (Inr response, s') \<Rightarrow>
             (case generated_image_result response of
                Inl error \<Rightarrow>
                  (Inl error, (s', console_error ''Imagen image generation error:'' error c))
              | Inr result \<Rightarrow> (Inr result, (s', c)))))"

definition generateImageGemini ::
  "'s generateImages \<Rightarrow> string \<Rightarrow> string \<Rightarrow> 's \<times> console \<Rightarrow>
   string option outcome \<times> event list \<times> ('s \<times> console)" where
  "generateImageGemini remote prompt ratio w =
     withExponentialBackoff_default (generateImage_operation remote prompt ratio) w"

subsection \<open>editImageGemini\<close>

text \<open>Line 107: \<open>response.candidates?.[0]?.content?.parts || []\<close>.\<close>

definition response_parts :: "generate_content_response \<Rightarrow> part list" where
  "response_parts response =
     (case candidates response of
        None \<Rightarrow> []
      | Some [] \<Rightarrow> []
      | Some (first # _) \<Rightarrow>
          (case cand_content first of
             None \<Rightarrow> []
           | Some ct \<Rightarrow> (case parts ct of None \<Rightarrow> [] | Some ps \<Rightarrow> ps)))"

text \<open>Lines 107-112: the loop over the parts, returning from inside at the first hit.\<close>

fun first_inline_image :: "part list \<Rightarrow> string option" where
  "first_inline_image [] = None"
| "first_inline_image (p # ps) =
     (case inlineData p of
        Some d \<Rightarrow> Some (''data:image/png;base64,'' @ interpolate (data d))
      | None \<Rightarrow> first_inline_image ps)"

definition generateContent_parameters :: "string \<Rightarrow> string \<Rightarrow> string \<Rightarrow> generate_content_parameters" where
  "generateContent_parameters prompt base64ImageData mime =
     \<lparr>gc_model = ''gemini-2.5-flash-image'',
      gc_contents =
        \<lparr>parts = Some
           [\<lparr>part_text = Some (''Edit this image based on the following instruction: '' @ prompt
                               @ ''. Return ONLY the edited image.''),
             inlineData = None\<rparr>,
            \<lparr>part_text = None,
             inlineData = Some \<lparr>mimeType = Some mime, data = Some base64ImageData\<rparr>\<rparr>],
         content_role = None\<rparr>\<rparr>"

definition editImage_operation ::
  "'s generateContent \<Rightarrow> string \<Rightarrow> string \<Rightarrow> string \<Rightarrow> ('s \<times> console, string option) operation" where
  "editImage_operation remote prompt base64ImageData mime w =
     (case w of (s, c) \<Rightarrow>
        (case remote (generateContent_parameters prompt base64ImageData mime) s of
           (Inl error, s') \<Rightarrow> (Inl error, (s', console_error ''Gemini image editing error:'' error c))
         | (Inr response, s') \<Rightarrow> (Inr (first_inline_image (response_parts response)), (s', c))))"

definition editImageGemini ::
  "'s generateContent \<Rightarrow> string \<Rightarrow> string \<Rightarrow> string \<Rightarrow> 's \<times> console \<Rightarrow>
   string option outcome \<times> event list \<times> ('s \<times> console)" where
  "editImageGemini remote prompt base64ImageData mime w =
     withExponentialBackoff_default (editImage_operation remote prompt base64ImageData mime) w"

text \<open>The call that leaves \<open>mimeType\<close> to its default, \<open>'image/png'\<close>.\<close>

definition editImageGemini_default ::
  "'s generateContent \<Rightarrow> string \<Rightarrow> string \<Rightarrow> 's \<times> console \<Rightarrow>
   string option outcome \<times> event list \<times> ('s \<times> console)" where
  "editImageGemini_default remote prompt base64ImageData w =
     editImageGemini remote prompt base64ImageData ''image/png'' w"

subsection \<open>sendChatMessageGemini\<close>

definition persona :: string where
  "persona = ''You are 'Digi AI Assistant', a highly professional, mannerful, and helpful problem-solving AI. Your goal is to provide clear, effective, and supportive solutions to user problems. Maintain a warm, encouraging, and sophisticated tone, similar to a premium consultant or mentor.''"

text \<open>Lines 152-155: the callback of \<open>history.map\<close>.\<close>

definition history_entry :: "ChatMessage \<Rightarrow> content" where
  "history_entry msg =
     \<lparr>parts = Some [\<lparr>part_text = Some (msg_text msg), inlineData = None\<rparr>],
      content_role = Some (if role msg = User then ''user'' else ''model'')\<rparr>"

text \<open>Lines 144-156: the argument of \<open>ai.chats.create\<close>.\<close>

definition chat_create_parameters :: "ChatMessage list \<Rightarrow> chat_parameters" where
  "chat_create_parameters history =
     \<lparr>chat_model = ''gemini-2.5-flash'',
      systemInstruction =
        \<lparr>parts = Some [\<lparr>part_text = Some persona, inlineData = None\<rparr>], content_role = None\<rparr>,
      chat_history = map history_entry history\<rparr>"

definition sendChatMessage_operation ::
  "'s sendMessage \<Rightarrow> ChatMessage list \<Rightarrow> string \<Rightarrow> ('s \<times> console, string option) operation" where
  "sendChatMessage_operation remote history newMessage w =
     (case w of (s, c) \<Rightarrow>
        (case remote (chat_create_parameters history) newMessage s of
           (Inl error, s') \<Rightarrow> (Inl error, (s', console_error ''Gemini chat error:'' error c))
         | (Inr response, s') \<Rightarrow> (Inr (response_text response), (s', c))))"

definition sendChatMessageGemini ::
  "'s sendMessage \<Rightarrow> ChatMessage list \<Rightarrow> string \<Rightarrow> 's \<times> console \<Rightarrow>
   string option outcome \<times> event list \<times> ('s \<times> console)" where
  "sendChatMessageGemini remote history newMessage w =
     withExponentialBackoff_default (sendChatMessage_operation remote history newMessage) w"

section \<open>Test doubles\<close>

text \<open>An operation that rejects with \<open>e\<close> on every call, and two errors of the service.\<close>

definition always_rejects :: "js_error \<Rightarrow> (unit, 'a) operation" where
  "always_rejects e w = (Inl e, w)"

definition rate_limited :: js_error where
  "rate_limited = \<lparr>err_name = ''ApiError'', status = Some 429, message = Some ''quota''\<rparr>"

definition bad_request :: js_error where
  "bad_request = \<lparr>err_name = ''ApiError'', status = Some 400, message = Some ''bad''\<rparr>"

definition not_found :: js_error where
  "not_found =
     \<lparr>err_name = ''ApiError'', status = Some 404,
      message = Some ''Error: Requested entity was not found. (models/x)''\<rparr>"

text \<open>
  An operation that counts its calls in the world: it rejects with a rate-limit error on
  the first two and resolves on the third.
\<close>

definition flaky :: "(nat, string) operation" where
  "flaky calls = (if calls < 2 then Inl rate_limited else Inr ''done'', Suc calls)"

text \<open>
  A service that answers every request with the same response and keeps the requests it
  has received as its state.
\<close>

definition recording_stub :: "'r \<Rightarrow> 'q \<Rightarrow> 'q list \<Rightarrow> (js_error + 'r) \<times> 'q list" where
  "recording_stub response request seen = (Inr response, seen @ [request])"

text \<open>A chat service that answers every message with the same response.\<close>

definition replying :: "generate_content_response \<Rightarrow> unit sendMessage" where
  "replying response params msg s = (Inr response, s)"

text \<open>
  A chat service wrapped so that it keeps, next to its own state, the list of the
  requests it has received: the parameters of the chat and the message.
\<close>

definition recording :: "'s sendMessage \<Rightarrow> ('s \<times> (chat_parameters \<times> string) list) sendMessage" where
  "recording remote params msg w =
     (case w of (s, seen) \<Rightarrow>
        (case remote params msg s of (r, s') \<Rightarrow> (r, (s', seen @ [(params, msg)]))))"

text \<open>Responses of the image model: no image, empty bytes, one PNG, an entry with no image.\<close>

definition zero_images :: generate_images_response where
  "zero_images = \<lparr>generatedImages = Some []\<rparr>"

definition empty_bytes :: generate_images_response where
  "empty_bytes =
     \<lparr>generatedImages = Some [\<lparr>gen_image = Some \<lparr>imageBytes = Some [], image_mimeType = None\<rparr>\<rparr>]\<rparr>"

definition one_png :: generate_images_response where
  "one_png =
     \<lparr>generatedImages =
        Some [\<lparr>gen_image = Some \<lparr>imageBytes = Some ''iVBORw0KGgo='',
                                  image_mimeType = Some ''image/png''\<rparr>\<rparr>]\<rparr>"

definition filtered_image :: generate_images_response where
  "filtered_image = \<lparr>generatedImages = Some [\<lparr>gen_image = None\<rparr>]\<rparr>"

text \<open>Responses of the content model: a text part followed by an image part, and text alone.\<close>

definition text_then_image :: generate_content_response where
  "text_then_image =
     \<lparr>candidates = Some
        [\<lparr>cand_content = Some
            \<lparr>parts = Some
               [\<lparr>part_text = Some ''Here is the edit.'', inlineData = None\<rparr>,
                \<lparr>part_text = None,
                 inlineData = Some \<lparr>mimeType = Some ''image/jpeg'', data = Some ''/9j/4AAQ''\<rparr>\<rparr>],
             content_role = Some ''model''\<rparr>\<rparr>],
      response_text = Some ''Here is the edit.''\<rparr>"

definition text_only :: generate_content_response where
  "text_only =
     \<lparr>candidates = Some
        [\<lparr>cand_content = Some
            \<lparr>parts = Some [\<lparr>part_text = Some ''I am well.'', inlineData = None\<rparr>],
             content_role = Some ''model''\<rparr>\<rparr>],
      response_text = Some ''I am well.''\<rparr>"

text \<open>The transcript of the specification's example.\<close>

definition hi_hello :: "ChatMessage list" where
  "hi_hello = [\<lparr>role = User, msg_text = ''hi''\<rparr>, \<lparr>role = Model, msg_text = ''hello''\<rparr>]"

section \<open>Lemmas about the retry loop\<close>

text \<open>The comparisons of the loop on a whole number of attempts.\<close>

lemma js_lt_whole [simp]: "js_lt i (whole n) \<longleftrightarrow> i < n"
  by (simp add: whole_def)

lemma js_last_whole [simp]: "js_strict_eq i (js_minus_one (whole n)) \<longleftrightarrow> i = n - 1"
  by (auto simp add: whole_def)

text \<open>One step of the loop, case by case, for any number of attempts.\<close>

lemma retry_loop_step_done:
  "\<not> js_lt i a \<Longrightarrow> retry_loop fn a i delay w = (MaxAttemptsReached, [], w)"
  by (simp add: retry_loop.simps)

lemma retry_loop_step_resolve:
  "js_lt i a \<Longrightarrow> fn w = (Inr v, w') \<Longrightarrow>
   retry_loop fn a i delay w = (Returned v, [Invoked], w')"
  by (simp add: retry_loop.simps)

lemma retry_loop_step_rethrow:
  "js_lt i a \<Longrightarrow> fn w = (Inl e, w') \<Longrightarrow>
   js_strict_eq i (js_minus_one a) \<or> \<not> isRetriableError e \<Longrightarrow>
   retry_loop fn a i delay w = (Rethrown e, [Invoked], w')"
  by (subst retry_loop.simps) auto

lemma retry_loop_step_retry:
  assumes "js_lt i a" and "fn w = (Inl e, w')"
    and "\<not> js_strict_eq i (js_minus_one a)" and "isRetriableError e"
  shows "outcome_of (retry_loop fn a i delay w)
           = outcome_of (retry_loop fn a (i + 1) (delay * 2) w')"
    and "events_of (retry_loop fn a i delay w)
           = Invoked # Warned (i + 1) delay e # Slept delay
             # events_of (retry_loop fn a (i + 1) (delay * 2) w')"
    and "world_of (retry_loop fn a i delay w)
           = world_of (retry_loop fn a (i + 1) (delay * 2) w')"
  using assms
  by (simp_all add: retry_loop.simps [of fn a i delay w] outcome_of_def events_of_def
      world_of_def case_prod_beta)

text \<open>The same steps on a whole number of attempts.\<close>

lemma retry_loop_done:
  "\<not> i < attempts \<Longrightarrow> retry_loop fn (whole attempts) i delay w = (MaxAttemptsReached, [], w)"
  by (simp add: retry_loop_step_done)

lemma retry_loop_success:
  "i < attempts \<Longrightarrow> fn w = (Inr v, w') \<Longrightarrow>
   retry_loop fn (whole attempts) i delay w = (Returned v, [Invoked], w')"
  by (simp add: retry_loop_step_resolve)

lemma retry_loop_fatal:
  "i < attempts \<Longrightarrow> fn w = (Inl e, w') \<Longrightarrow> \<not> isRetriableError e \<Longrightarrow>
   retry_loop fn (whole attempts) i delay w = (Rethrown e, [Invoked], w')"
  by (simp add: retry_loop_step_rethrow)

lemma retry_loop_last:
  "i = attempts - 1 \<Longrightarrow> fn w = (Inl e, w') \<Longrightarrow>
   retry_loop fn (whole attempts) i delay w = (Rethrown e, [Invoked], w')"
  by (simp add: retry_loop_step_rethrow)

lemma retry_loop_retry_parts:
  assumes "i < attempts - 1" and "fn w = (Inl e, w')" and "isRetriableError e"
  shows "outcome_of (retry_loop fn (whole attempts) i delay w)
           = outcome_of (retry_loop fn (whole attempts) (i + 1) (delay * 2) w')"
    and "events_of (retry_loop fn (whole attempts) i delay w)
           = Invoked # Warned (i + 1) delay e # Slept delay
             # events_of (retry_loop fn (whole attempts) (i + 1) (delay * 2) w')"
    and "world_of (retry_loop fn (whole attempts) i delay w)
           = world_of (retry_loop fn (whole attempts) (i + 1) (delay * 2) w')"
  using assms
  by (simp_all add: retry_loop_step_retry [where fn = fn and w = w and e = e and w' = w'])

lemma retry_loop_first_event:
  "i < attempts \<Longrightarrow> \<exists>evs. events_of (retry_loop fn (whole attempts) i delay w) = Invoked # evs"
  by (subst retry_loop.simps) (auto simp: events_of_def split: prod.splits sum.splits)

lemma world_after_Suc: "world_after fn (Suc n) w = snd (fn (world_after fn n w))"
  by (induction n arbitrary: w) simp_all

text \<open>The source's substring test is the library's contiguous-sublist relation.\<close>

lemma str_includes_sublist: "str_includes s needle \<longleftrightarrow> sublist needle s"
  by (induction s) (auto simp: sublist_Cons_right)

lemma isRetriableError_spec: "isRetriableError e \<longleftrightarrow> spec_retriable e"
  by (auto simp: isRetriableError_def spec_retriable_def str_includes_sublist split: option.splits)

text \<open>
  \<open>n\<close> retriable rejections in a row, with attempts left after them, take the loop from
  counter \<open>i\<close> to counter \<open>i + n\<close>: \<open>n\<close> calls, the delays \<open>delay * 2 ^ k\<close> for
  \<open>k < n\<close>, and the delay multiplied by \<open>2 ^ n\<close>.
\<close>

lemma fails_retriably_last:
  "fails_retriably fn (Suc n) w \<Longrightarrow>
   fails_retriably fn n w \<and>
   (\<exists>e w'. fn (world_after fn n w) = (Inl e, w') \<and> isRetriableError e)"
proof (induction n arbitrary: w)
  case 0
  then show ?case by (auto split: prod.splits sum.splits)
next
  case (Suc n)
  then show ?case by (auto split: prod.splits sum.splits)
qed

lemma retry_loop_skip:
  "fails_retriably fn n w \<Longrightarrow> i + int n < attempts \<Longrightarrow>
   outcome_of (retry_loop fn (whole attempts) i delay w)
     = outcome_of (retry_loop fn (whole attempts) (i + int n) (delay * 2 ^ n) (world_after fn n w))
   \<and> invocations (events_of (retry_loop fn (whole attempts) i delay w))
     = n + invocations (events_of (retry_loop fn (whole attempts) (i + int n) (delay * 2 ^ n) (world_after fn n w)))
   \<and> delays (events_of (retry_loop fn (whole attempts) i delay w))
     = map (\<lambda>k. delay * 2 ^ k) [0..<n]
       @ delays (events_of (retry_loop fn (whole attempts) (i + int n) (delay * 2 ^ n) (world_after fn n w)))
   \<and> world_of (retry_loop fn (whole attempts) i delay w)
     = world_of (retry_loop fn (whole attempts) (i + int n) (delay * 2 ^ n) (world_after fn n w))
   \<and> (\<exists>pre. events_of (retry_loop fn (whole attempts) i delay w)
     = pre @ events_of (retry_loop fn (whole attempts) (i + int n) (delay * 2 ^ n) (world_after fn n w)))"
proof (induction n arbitrary: i delay w)
  case 0
  then show ?case by simp
next
  case (Suc n)
  from Suc.prems(1) obtain e w' where fw: "fn w = (Inl e, w')" and re: "isRetriableError e"
    and rest: "fails_retriably fn n w'"
    by (auto split: prod.splits sum.splits)
  from Suc.prems(2) have lt: "i < attempts - 1" and lt': "(i + 1) + int n < attempts" by auto
  note step = retry_loop_retry_parts [where fn = fn and w = w and delay = delay, OF lt fw re]
  note ih = Suc.IH [where w = w' and delay = "delay * 2", OF rest lt']
  have w_eq: "world_after fn (Suc n) w = world_after fn n w'" using fw by simp
  have i_eq: "i + int (Suc n) = i + 1 + int n" by simp
  have d_eq: "delay * 2 ^ Suc n = delay * 2 * 2 ^ n" by simp
  have m_eq: "map (\<lambda>k. delay * 2 ^ k) [0..<Suc n] = delay # map (\<lambda>k. delay * 2 * 2 ^ k) [0..<n]"
    by (simp add: upt_conv_Cons map_Suc_upt [symmetric] del: upt_Suc)
  show ?case
    unfolding w_eq i_eq d_eq m_eq
    using ih
    by (auto simp add: step)
qed

lemma backoff_skip:
  assumes "fails_retriably fn n w" and "int n < attempts"
  shows "outcome_of (withExponentialBackoff fn (whole attempts) delay w)
           = outcome_of (retry_loop fn (whole attempts) (int n) (delay * 2 ^ n) (world_after fn n w))"
    and "invocations (events_of (withExponentialBackoff fn (whole attempts) delay w))
           = n + invocations (events_of (retry_loop fn (whole attempts) (int n) (delay * 2 ^ n) (world_after fn n w)))"
    and "delays (events_of (withExponentialBackoff fn (whole attempts) delay w))
           = map (\<lambda>k. delay * 2 ^ k) [0..<n]
             @ delays (events_of (retry_loop fn (whole attempts) (int n) (delay * 2 ^ n) (world_after fn n w)))"
    and "world_of (withExponentialBackoff fn (whole attempts) delay w)
           = world_of (retry_loop fn (whole attempts) (int n) (delay * 2 ^ n) (world_after fn n w))"
    and "\<exists>pre. events_of (withExponentialBackoff fn (whole attempts) delay w)
           = pre @ events_of (retry_loop fn (whole attempts) (int n) (delay * 2 ^ n) (world_after fn n w))"
  using retry_loop_skip [where i = 0 and delay = delay, OF assms(1)] assms(2)
  by (simp_all add: withExponentialBackoff_def)

text \<open>The effects of those \<open>n\<close> attempts, one by one and in order.\<close>

lemma retry_loop_skip_events:
  "fails_retriably fn n w \<Longrightarrow> i + int n < attempts \<Longrightarrow>
   events_of (retry_loop fn (whole attempts) i delay w)
     = concat (map (\<lambda>j. [Invoked,
                          Warned (i + int j + 1) (delay * 2 ^ j)
                            (projl (fst (fn (world_after fn j w)))),
                          Slept (delay * 2 ^ j)]) [0..<n])
       @ events_of (retry_loop fn (whole attempts) (i + int n) (delay * 2 ^ n) (world_after fn n w))"
proof (induction n arbitrary: i delay w)
  case 0
  then show ?case by simp
next
  case (Suc n)
  from Suc.prems(1) obtain e w' where fw: "fn w = (Inl e, w')" and re: "isRetriableError e"
    and rest: "fails_retriably fn n w'"
    by (auto split: prod.splits sum.splits)
  from Suc.prems(2) have lt: "i < attempts - 1" and lt': "(i + 1) + int n < attempts" by auto
  note step = retry_loop_retry_parts(2) [where fn = fn and w = w and delay = delay, OF lt fw re]
  note ih = Suc.IH [where w = w' and delay = "delay * 2", OF rest lt']
  have w_eq: "world_after fn (Suc n) w = world_after fn n w'" using fw by simp
  have i_eq: "i + int (Suc n) = i + 1 + int n" by simp
  have d_eq: "delay * 2 ^ Suc n = delay * 2 * 2 ^ n" by simp
  have m_eq: "concat (map (\<lambda>j. [Invoked,
                          Warned (i + int j + 1) (delay * 2 ^ j)
                            (projl (fst (fn (world_after fn j w)))),
                          Slept (delay * 2 ^ j)]) [0..<Suc n])
      = Invoked # Warned (i + 1) delay e # Slept delay
        # concat (map (\<lambda>j. [Invoked,
                          Warned (i + 1 + int j + 1) (delay * 2 * 2 ^ j)
                            (projl (fst (fn (world_after fn j w')))),
                          Slept (delay * 2 * 2 ^ j)]) [0..<n])"
    using fw
    by (simp add: upt_conv_Cons map_Suc_upt [symmetric] comp_def add.commute add.left_commute mult.assoc
        del: upt_Suc)
  show ?case
    unfolding w_eq i_eq d_eq m_eq step ih by simp
qed

text \<open>While attempts are left, the loop ends in a return or a rethrow.\<close>

lemma retry_loop_whole_not_exhausted:
  "a = whole attempts \<Longrightarrow> i < attempts \<Longrightarrow>
   outcome_of (retry_loop fn a i delay w) \<noteq> MaxAttemptsReached"
proof (induction fn a i delay w rule: retry_loop.induct)
  case (1 fn a i delay w)
  from "1.prems" have running: "js_lt i a" by simp
  obtain r w' where fw: "fn w = (r, w')" by (cases "fn w")
  show ?case
  proof (cases r)
    case (Inr v)
    with fw running show ?thesis by (simp add: retry_loop_step_resolve outcome_of_def)
  next
    case (Inl e)
    show ?thesis
    proof (cases "js_strict_eq i (js_minus_one a) \<or> \<not> isRetriableError e")
      case True
      with fw Inl running show ?thesis
        by (simp add: retry_loop_step_rethrow outcome_of_def)
    next
      case False
      with "1.prems" have "i + 1 < attempts" by simp
      with "1.IH" [OF running fw [symmetric] Inl False "1.prems"(1)]
      have "outcome_of (retry_loop fn a (i + 1) (delay * 2) w') \<noteq> MaxAttemptsReached" .
      with retry_loop_step_retry(1) [where fn = fn and w = w and delay = delay, OF running] fw Inl False
      show ?thesis by simp
    qed
  qed
qed

lemma retry_loop_not_exhausted:
  "i < attempts \<Longrightarrow> outcome_of (retry_loop fn (whole attempts) i delay w) \<noteq> MaxAttemptsReached"
  by (rule retry_loop_whole_not_exhausted [OF refl])

text \<open>The outcome when attempt \<open>k\<close> resolves, and when it rejects with a fatal error.\<close>

lemma backoff_resolves_at:
  assumes "1 \<le> k" and "int k \<le> attempts"
    and "fails_retriably fn (k - 1) w"
    and "fn (world_after fn (k - 1) w) = (Inr v, w')"
  shows "outcome_of (withExponentialBackoff fn (whole attempts) delay w) = Returned v
       \<and> invocations (events_of (withExponentialBackoff fn (whole attempts) delay w)) = k
       \<and> last (events_of (withExponentialBackoff fn (whole attempts) delay w)) = Invoked
       \<and> delays (events_of (withExponentialBackoff fn (whole attempts) delay w))
           = map (\<lambda>j. delay * 2 ^ j) [0..<k - 1]
       \<and> world_of (withExponentialBackoff fn (whole attempts) delay w) = w'"
proof -
  have lt: "int (k - 1) < attempts" using assms(1,2) by simp
  note skip = backoff_skip [OF assms(3) lt, of delay]
  have final: "retry_loop fn (whole attempts) (int (k - 1)) (delay * 2 ^ (k - 1)) (world_after fn (k - 1) w)
      = (Returned v, [Invoked], w')"
    using lt assms(4) by (rule retry_loop_success)
  have "outcome_of (withExponentialBackoff fn (whole attempts) delay w) = Returned v"
    unfolding skip(1) final by (simp add: outcome_of_def)
  moreover have "invocations (events_of (withExponentialBackoff fn (whole attempts) delay w)) = k"
    unfolding skip(2) final using assms(1) by (simp add: events_of_def)
  moreover have "last (events_of (withExponentialBackoff fn (whole attempts) delay w)) = Invoked"
    using skip(5) unfolding final by (auto simp: events_of_def)
  moreover have "delays (events_of (withExponentialBackoff fn (whole attempts) delay w))
      = map (\<lambda>j. delay * 2 ^ j) [0..<k - 1]"
    unfolding skip(3) final by (simp add: events_of_def)
  moreover have "world_of (withExponentialBackoff fn (whole attempts) delay w) = w'"
    unfolding skip(4) final by (simp add: world_of_def)
  ultimately show ?thesis by (intro conjI)
qed

lemma backoff_rejects_at:
  assumes "1 \<le> k" and "int k \<le> attempts"
    and "fails_retriably fn (k - 1) w"
    and "fn (world_after fn (k - 1) w) = (Inl e, w')"
    and "\<not> isRetriableError e"
  shows "outcome_of (withExponentialBackoff fn (whole attempts) delay w) = Rethrown e
       \<and> invocations (events_of (withExponentialBackoff fn (whole attempts) delay w)) = k
       \<and> world_of (withExponentialBackoff fn (whole attempts) delay w) = w'"
proof -
  have lt: "int (k - 1) < attempts" using assms(1,2) by simp
  note skip = backoff_skip [OF assms(3) lt, of delay]
  have final: "retry_loop fn (whole attempts) (int (k - 1)) (delay * 2 ^ (k - 1)) (world_after fn (k - 1) w)
      = (Rethrown e, [Invoked], w')"
    using lt assms(4,5) by (rule retry_loop_fatal)
  have "outcome_of (withExponentialBackoff fn (whole attempts) delay w) = Rethrown e"
    unfolding skip(1) final by (simp add: outcome_of_def)
  moreover have "invocations (events_of (withExponentialBackoff fn (whole attempts) delay w)) = k"
    unfolding skip(2) final using assms(1) by (simp add: events_of_def)
  moreover have "world_of (withExponentialBackoff fn (whole attempts) delay w) = w'"
    unfolding skip(4) final by (simp add: world_of_def)
  ultimately show ?thesis by (intro conjI)
qed

text \<open>
  If every call of the operation appends the same entry to a log kept in the world, the
  log grows by one entry per call.
\<close>

lemma retry_loop_log:
  assumes "\<And>u. lg (snd (fn u)) = lg u @ [x]"
  shows "lg (world_of (retry_loop fn a i delay w))
           = lg w @ replicate (invocations (events_of (retry_loop fn a i delay w))) x"
  using assms
proof (induction fn a i delay w rule: retry_loop.induct)
  case (1 fn a i delay w)
  obtain r w' where fw: "fn w = (r, w')" by (cases "fn w")
  from "1.prems" [of w] fw have lg: "lg w' = lg w @ [x]" by simp
  show ?case
  proof (cases "js_lt i a")
    case False
    then show ?thesis by (simp add: retry_loop_step_done world_of_def events_of_def)
  next
    case running: True
    show ?thesis
    proof (cases r)
      case (Inr v)
      with fw running lg show ?thesis
        by (simp add: retry_loop_step_resolve world_of_def events_of_def)
    next
      case (Inl e)
      show ?thesis
      proof (cases "js_strict_eq i (js_minus_one a) \<or> \<not> isRetriableError e")
        case True
        with fw Inl running lg show ?thesis
          by (simp add: retry_loop_step_rethrow world_of_def events_of_def)
      next
        case False
        from fw Inl have fw': "fn w = (Inl e, w')" by simp
        from False have nl: "\<not> js_strict_eq i (js_minus_one a)" and re: "isRetriableError e"
          by simp_all
        note step = retry_loop_step_retry [where fn = fn and w = w and delay = delay, OF running fw' nl re]
        from "1.IH" [OF running fw [symmetric] Inl False "1.prems"]
        show ?thesis by (simp add: step lg replicate_app_Cons_same)
      qed
    qed
  qed
qed

section \<open>Lemmas about the three remote calls\<close>

lemma always_rejects_fails_retriably:
  "isRetriableError e \<Longrightarrow> fails_retriably (always_rejects e) n ()"
  by (induction n) (simp_all add: always_rejects_def)

lemma rate_limited_retriable: "isRetriableError rate_limited"
  by (simp add: isRetriableError_def rate_limited_def)

lemma first_inline_image_none:
  "(\<forall>q \<in> set ps. inlineData q = None) \<Longrightarrow> first_inline_image ps = None"
  by (induction ps) simp_all

lemma first_inline_image_first:
  "(\<forall>q \<in> set pre. inlineData q = None) \<Longrightarrow> inlineData p = Some d \<Longrightarrow>
   first_inline_image (pre @ p # post) = Some (''data:image/png;base64,'' @ interpolate (data d))"
  by (induction pre) simp_all

lemma imageBytes_of_undefined_fatal: "\<not> isRetriableError imageBytes_of_undefined"
  by (simp add: isRetriableError_def imageBytes_of_undefined_def)

lemma generateImage_operation_resolves:
  "remote (generateImages_parameters prompt ratio) s = (Inr response, s') \<Longrightarrow>
   generated_image_result response = Inr result \<Longrightarrow>
   generateImage_operation remote prompt ratio (s, c) = (Inr result, (s', c))"
  by (simp add: generateImage_operation_def)

lemma generateImage_operation_throws:
  "remote (generateImages_parameters prompt ratio) s = (Inr response, s') \<Longrightarrow>
   generated_image_result response = Inl e \<Longrightarrow>
   generateImage_operation remote prompt ratio (s, c)
     = (Inl e, (s', console_error ''Imagen image generation error:'' e c))"
  by (simp add: generateImage_operation_def)

lemma editImage_operation_resolves:
  "remote (generateContent_parameters prompt b64 mime) s = (Inr response, s') \<Longrightarrow>
   editImage_operation remote prompt b64 mime (s, c)
     = (Inr (first_inline_image (response_parts response)), (s', c))"
  by (simp add: editImage_operation_def)

lemma sendChatMessage_operation_resolves:
  "remote (chat_create_parameters history) newMessage s = (Inr response, s') \<Longrightarrow>
   sendChatMessage_operation remote history newMessage (s, c)
     = (Inr (response_text response), (s', c))"
  by (simp add: sendChatMessage_operation_def)

lemma recording_operation_log:
  "snd (fst (snd (sendChatMessage_operation (recording remote) history newMessage u)))
     = snd (fst u) @ [(chat_create_parameters history, newMessage)]"
  by (cases u) (auto simp: sendChatMessage_operation_def recording_def split: prod.splits sum.splits)

lemma chat_requests:
  "snd (fst (world_of (sendChatMessageGemini (recording remote) history newMessage w)))
     = snd (fst w)
       @ replicate (invocations (events_of (sendChatMessageGemini (recording remote) history newMessage w)))
           (chat_create_parameters history, newMessage)"
  unfolding sendChatMessageGemini_def withExponentialBackoff_default_def withExponentialBackoff_def
  by (rule retry_loop_log [where lg = "\<lambda>u. snd (fst u)"]) (rule recording_operation_log)

section \<open>Properties of the executor and of the three calls\<close>

text \<open>
  C1. When the operation rejects with a retriable error on each of the \<open>attempts\<close>
  attempts of a policy with \<open>attempts \<ge> 1\<close>, the executor calls it exactly \<open>attempts\<close>
  times, and the timers it sets are, in order, \<open>delay\<close>, \<open>2 * delay\<close>, \<open>4 * delay\<close>, ...:
  the delay before the k-th retry, for \<open>1 \<le> k \<le> attempts - 1\<close>, is \<open>delay * 2 ^ (k - 1)\<close>.
  The effects are exactly these: each call but the last is followed by the warning with
  its attempt number, the delay and the error that call was rejected with, and by the
  timer; then comes the last call. The world is the one the operation leaves after
  \<open>attempts\<close> calls, and the error thrown is the one of the last call.
  With the defaults (3 attempts, 1000 ms) the delays are 1000 and 2000.
\<close>

theorem always_retriable_invocations_and_delays:
  assumes "1 \<le> attempts" and "fails_retriably fn (nat attempts) w"
  shows "int (invocations (events_of (withExponentialBackoff fn (whole attempts) delay w))) = attempts
       \<and> delays (events_of (withExponentialBackoff fn (whole attempts) delay w))
           = map (\<lambda>k. delay * 2 ^ k) [0..<nat attempts - 1]
       \<and> (\<forall>k. 1 \<le> k \<and> int k \<le> attempts - 1 \<longrightarrow>
             delays (events_of (withExponentialBackoff fn (whole attempts) delay w)) ! (k - 1)
               = delay * 2 ^ (k - 1))
       \<and> events_of (withExponentialBackoff fn (whole attempts) delay w)
           = concat (map (\<lambda>j. [Invoked,
                                Warned (int j + 1) (delay * 2 ^ j)
                                  (projl (fst (fn (world_after fn j w)))),
                                Slept (delay * 2 ^ j)]) [0..<nat attempts - 1])
             @ [Invoked]
       \<and> world_of (withExponentialBackoff fn (whole attempts) delay w)
           = world_after fn (nat attempts) w
       \<and> outcome_of (withExponentialBackoff fn (whole attempts) delay w)
           = Rethrown (projl (fst (fn (world_after fn (nat attempts - 1) w))))
       \<and> (attempts = 3 \<and> delay = 1000 \<longrightarrow>
             withExponentialBackoff_default fn w = withExponentialBackoff fn (whole attempts) delay w
           \<and> delays (events_of (withExponentialBackoff_default fn w)) = [1000, 2000])"
proof -
  define n where "n = nat attempts - 1"
  have n: "nat attempts = Suc n" "int n = attempts - 1" using assms(1) by (auto simp: n_def)
  from assms(2) fails_retriably_last [of fn n w]
  obtain e w' where pre: "fails_retriably fn n w"
    and last_call: "fn (world_after fn n w) = (Inl e, w')"
    by (auto simp: n)
  have lt: "int n < attempts" using n by simp
  note skip = backoff_skip [OF pre lt, of delay]
  have final: "retry_loop fn (whole attempts) (int n) (delay * 2 ^ n) (world_after fn n w)
      = (Rethrown e, [Invoked], w')"
    using last_call n by (simp add: retry_loop_last)
  have final_events: "events_of (retry_loop fn (whole attempts) (int n) (delay * 2 ^ n) (world_after fn n w))
      = [Invoked]"
    by (simp add: final events_of_def)
  have inv: "invocations (events_of (withExponentialBackoff fn (whole attempts) delay w)) = Suc n"
    by (simp add: skip(2) final_events)
  have del: "delays (events_of (withExponentialBackoff fn (whole attempts) delay w))
      = map (\<lambda>k. delay * 2 ^ k) [0..<n]"
    by (simp add: skip(3) final_events)
  have evs: "events_of (withExponentialBackoff fn (whole attempts) delay w)
      = concat (map (\<lambda>j. [Invoked,
                           Warned (int j + 1) (delay * 2 ^ j)
                             (projl (fst (fn (world_after fn j w)))),
                           Slept (delay * 2 ^ j)]) [0..<n])
        @ [Invoked]"
    using retry_loop_skip_events [where i = 0 and delay = delay, OF pre] lt
    by (simp add: withExponentialBackoff_def final_events)
  have wld: "world_of (withExponentialBackoff fn (whole attempts) delay w) = world_after fn (Suc n) w"
    unfolding skip(4) final world_after_Suc by (simp add: world_of_def last_call)
  have out: "outcome_of (withExponentialBackoff fn (whole attempts) delay w)
      = Rethrown (projl (fst (fn (world_after fn n w))))"
    unfolding skip(1) final by (simp add: outcome_of_def last_call)
  have nth: "\<forall>k. 1 \<le> k \<and> int k \<le> attempts - 1 \<longrightarrow>
      delays (events_of (withExponentialBackoff fn (whole attempts) delay w)) ! (k - 1) = delay * 2 ^ (k - 1)"
    using n by (auto simp: del)
  have dflt: "attempts = 3 \<and> delay = 1000 \<longrightarrow>
        withExponentialBackoff_default fn w = withExponentialBackoff fn (whole attempts) delay w
      \<and> delays (events_of (withExponentialBackoff_default fn w)) = [1000, 2000]"
  proof (intro impI)
    assume a: "attempts = 3 \<and> delay = 1000"
    then have "n = 2" using n by simp
    then have "map (\<lambda>k. delay * 2 ^ k) [0..<n] = [1000, 2000]"
      using a by (simp add: upt_rec)
    with del a show "withExponentialBackoff_default fn w = withExponentialBackoff fn (whole attempts) delay w
      \<and> delays (events_of (withExponentialBackoff_default fn w)) = [1000, 2000]"
      by (simp add: withExponentialBackoff_default_def)
  qed
  have inv': "int (invocations (events_of (withExponentialBackoff fn (whole attempts) delay w))) = attempts"
    using inv n(2) by simp
  have del': "delays (events_of (withExponentialBackoff fn (whole attempts) delay w))
      = map (\<lambda>k. delay * 2 ^ k) [0..<nat attempts - 1]"
    using del by (simp only: n_def)
  have evs': "events_of (withExponentialBackoff fn (whole attempts) delay w)
      = concat (map (\<lambda>j. [Invoked,
                           Warned (int j + 1) (delay * 2 ^ j)
                             (projl (fst (fn (world_after fn j w)))),
                           Slept (delay * 2 ^ j)]) [0..<nat attempts - 1])
        @ [Invoked]"
    using evs by (simp only: n_def)
  have wld': "world_of (withExponentialBackoff fn (whole attempts) delay w)
      = world_after fn (nat attempts) w"
    using wld by (simp only: n(1))
  have out': "outcome_of (withExponentialBackoff fn (whole attempts) delay w)
      = Rethrown (projl (fst (fn (world_after fn (nat attempts - 1) w))))"
    using out by (simp only: n_def)
  from inv' del' nth evs' wld' out' dflt show ?thesis by (intro conjI)
qed

theorem always_retriable_invocations_and_delays_witness:
  "(1::int) \<le> 3
   \<and> fails_retriably (always_rejects rate_limited :: (unit, nat) operation) (nat 3) ()
   \<and> int (invocations (events_of
         (withExponentialBackoff (always_rejects rate_limited :: (unit, nat) operation) (whole 3) 1000 ()))) = 3
   \<and> events_of
         (withExponentialBackoff (always_rejects rate_limited :: (unit, nat) operation) (whole 3) 1000 ())
       = [Invoked, Warned 1 1000 rate_limited, Slept 1000,
          Invoked, Warned 2 2000 rate_limited, Slept 2000, Invoked]
   \<and> delays (events_of
         (withExponentialBackoff_default (always_rejects rate_limited :: (unit, nat) operation) ()))
       = [1000, 2000]"
proof -
  have h1: "(1::int) \<le> 3" by simp
  have h2: "fails_retriably (always_rejects rate_limited :: (unit, nat) operation) (nat 3) ()"
    by (rule always_rejects_fails_retriably [OF rate_limited_retriable])
  from always_retriable_invocations_and_delays [OF h1 h2, of 1000] h1 h2
  show ?thesis by (simp add: upt_rec always_rejects_def)
qed

text \<open>
  C2. An error is classified as retriable exactly when it carries status 429, or status
  403, or a message that contains "Requested entity was not found."; every other error is
  fatal. In the executor's behaviour, when at least two attempts are allowed: after a
  first rejection with a retriable error it warns, sleeps and calls the operation again;
  after any other first rejection it throws the error at once.
\<close>

theorem retriable_classification:
  "(isRetriableError e \<longleftrightarrow> spec_retriable e)
   \<and> (2 \<le> attempts \<and> fn w = (Inl e, w') \<longrightarrow>
        (spec_retriable e \<longrightarrow>
           (\<exists>evs. events_of (withExponentialBackoff fn (whole attempts) delay w)
                    = Invoked # Warned 1 delay e # Slept delay # Invoked # evs))
      \<and> (\<not> spec_retriable e \<longrightarrow>
           withExponentialBackoff fn (whole attempts) delay w = (Rethrown e, [Invoked], w')))"
proof (intro conjI impI)
  show "isRetriableError e \<longleftrightarrow> spec_retriable e" by (rule isRetriableError_spec)
next
  assume a: "2 \<le> attempts \<and> fn w = (Inl e, w')" and r: "spec_retriable e"
  from a have lt: "0 < attempts - 1" and fw: "fn w = (Inl e, w')" by auto
  from r have re: "isRetriableError e" by (simp add: isRetriableError_spec)
  from a have "0 + 1 < attempts" by simp
  from retry_loop_first_event [OF this, of fn "delay * 2" w']
  obtain evs where "events_of (retry_loop fn (whole attempts) (0 + 1) (delay * 2) w') = Invoked # evs" ..
  with retry_loop_retry_parts(2) [where fn = fn and w = w and delay = delay, OF lt fw re]
  show "\<exists>evs. events_of (withExponentialBackoff fn (whole attempts) delay w)
          = Invoked # Warned 1 delay e # Slept delay # Invoked # evs"
    by (simp add: withExponentialBackoff_def)
next
  assume a: "2 \<le> attempts \<and> fn w = (Inl e, w')" and r: "\<not> spec_retriable e"
  then have "\<not> isRetriableError e" "0 < attempts" by (simp_all add: isRetriableError_spec)
  with a show "withExponentialBackoff fn (whole attempts) delay w = (Rethrown e, [Invoked], w')"
    by (simp add: withExponentialBackoff_def retry_loop_fatal)
qed

theorem retriable_classification_witness:
  "isRetriableError not_found \<and> spec_retriable not_found
   \<and> \<not> isRetriableError bad_request \<and> \<not> spec_retriable bad_request
   \<and> (\<exists>evs. events_of (withExponentialBackoff (always_rejects not_found :: (unit, nat) operation) (whole 3) 1000 ())
               = Invoked # Warned 1 1000 not_found # Slept 1000 # Invoked # evs)
   \<and> withExponentialBackoff (always_rejects bad_request :: (unit, nat) operation) (whole 3) 1000 ()
       = (Rethrown bad_request, [Invoked], ())"
proof -
  have nf: "isRetriableError not_found"
    by (simp add: isRetriableError_def not_found_def)
  have br: "\<not> isRetriableError bad_request"
    by (simp add: isRetriableError_def bad_request_def)
  have f1: "(always_rejects not_found :: (unit, nat) operation) () = (Inl not_found, ())"
    and f2: "(always_rejects bad_request :: (unit, nat) operation) () = (Inl bad_request, ())"
    by (simp_all add: always_rejects_def)
  from retriable_classification
         [of not_found 3 "always_rejects not_found :: (unit, nat) operation" "()" "()" 1000]
       retriable_classification
         [of bad_request 3 "always_rejects bad_request :: (unit, nat) operation" "()" "()" 1000]
       nf br f1 f2
  show ?thesis by simp
qed

text \<open>
  C3, as stated, fails: an operation that rejects with status 429 on all three attempts of
  the default policy makes the executor throw that very error, not the error
  "Maximum retry attempts reached.".
\<close>

theorem exhausted_retries_throw_defensive_error_counterexample:
  "fails_retriably (always_rejects rate_limited :: (unit, nat) operation) 3 ()
   \<and> outcome_of (withExponentialBackoff (always_rejects rate_limited :: (unit, nat) operation) (whole 3) 1000 ())
       = Rethrown rate_limited
   \<and> outcome_of (withExponentialBackoff (always_rejects rate_limited :: (unit, nat) operation) (whole 3) 1000 ())
       \<noteq> MaxAttemptsReached
   \<and> thrown_value
        (outcome_of (withExponentialBackoff (always_rejects rate_limited :: (unit, nat) operation) (whole 3) 1000 ()))
       \<noteq> Some max_attempts_error"
proof -
  have run: "withExponentialBackoff (always_rejects rate_limited :: (unit, nat) operation) (whole 3) 1000 ()
      = (Rethrown rate_limited,
         [Invoked, Warned 1 1000 rate_limited, Slept 1000,
          Invoked, Warned 2 2000 rate_limited, Slept 2000, Invoked], ())"
    by (simp add: withExponentialBackoff_def retry_loop.simps always_rejects_def
        rate_limited_retriable)
  have "rate_limited \<noteq> max_attempts_error"
    by (simp add: rate_limited_def max_attempts_error_def)
  with run always_rejects_fails_retriably [OF rate_limited_retriable, of 3]
  show ?thesis by (simp add: outcome_of_def)
qed

text \<open>
  C3, amended. When the operation rejects with a retriable error on each of the
  \<open>attempts\<close> attempts (\<open>attempts \<ge> 1\<close>), the executor throws the operation's own last
  error, the one of call number \<open>attempts\<close>, after exactly \<open>attempts\<close> calls; it does not
  throw the error "Maximum retry attempts reached.".
\<close>

theorem exhausted_retries_rethrow_last_error:
  assumes "1 \<le> attempts" and "fails_retriably fn (nat attempts) w"
  shows "\<exists>e w'. fn (world_after fn (nat attempts - 1) w) = (Inl e, w')
           \<and> isRetriableError e
           \<and> outcome_of (withExponentialBackoff fn (whole attempts) delay w) = Rethrown e
           \<and> thrown_value (outcome_of (withExponentialBackoff fn (whole attempts) delay w)) = Some e
           \<and> outcome_of (withExponentialBackoff fn (whole attempts) delay w) \<noteq> MaxAttemptsReached
           \<and> world_of (withExponentialBackoff fn (whole attempts) delay w) = w'
           \<and> int (invocations (events_of (withExponentialBackoff fn (whole attempts) delay w))) = attempts"
proof -
  define n where "n = nat attempts - 1"
  have n: "nat attempts = Suc n" "int n = attempts - 1" using assms(1) by (auto simp: n_def)
  from assms(2) fails_retriably_last [of fn n w]
  obtain e w' where pre: "fails_retriably fn n w"
    and last_call: "fn (world_after fn n w) = (Inl e, w')" and re: "isRetriableError e"
    by (auto simp: n)
  have "int n < attempts" using n by simp
  note skip = backoff_skip [OF pre this, of delay]
  have final: "retry_loop fn (whole attempts) (int n) (delay * 2 ^ n) (world_after fn n w)
      = (Rethrown e, [Invoked], w')"
    using last_call n by (simp add: retry_loop_last)
  have "outcome_of (withExponentialBackoff fn (whole attempts) delay w) = Rethrown e"
    unfolding skip(1) final by (simp add: outcome_of_def)
  moreover have "world_of (withExponentialBackoff fn (whole attempts) delay w) = w'"
    unfolding skip(4) final by (simp add: world_of_def)
  moreover have "int (invocations (events_of (withExponentialBackoff fn (whole attempts) delay w))) = attempts"
    unfolding skip(2) final using n(2) by (simp add: events_of_def)
  ultimately show ?thesis
    using last_call re unfolding n_def [symmetric] by simp
qed

theorem exhausted_retries_rethrow_last_error_witness:
  "outcome_of (withExponentialBackoff (always_rejects rate_limited :: (unit, nat) operation) (whole 3) 1000 ())
     = Rethrown rate_limited
   \<and> int (invocations (events_of
        (withExponentialBackoff (always_rejects rate_limited :: (unit, nat) operation) (whole 3) 1000 ()))) = 3"
proof -
  have h1: "(1::int) \<le> 3" by simp
  have h2: "fails_retriably (always_rejects rate_limited :: (unit, nat) operation) (nat 3) ()"
    by (rule always_rejects_fails_retriably [OF rate_limited_retriable])
  from exhausted_retries_rethrow_last_error [OF h1 h2, of 1000]
  show ?thesis by (auto simp: always_rejects_def)
qed

text \<open>
  C4. When the first call of the operation rejects with an error that is not retriable
  (and the policy allows at least one attempt), the executor calls the operation exactly
  once, sets no timer, and throws that same error value.
\<close>

theorem fatal_error_propagates_after_one_call:
  assumes "1 \<le> attempts" and "fn w = (Inl e, w')" and "\<not> isRetriableError e"
  shows "outcome_of (withExponentialBackoff fn (whole attempts) delay w) = Rethrown e
       \<and> thrown_value (outcome_of (withExponentialBackoff fn (whole attempts) delay w)) = Some e
       \<and> events_of (withExponentialBackoff fn (whole attempts) delay w) = [Invoked]
       \<and> invocations (events_of (withExponentialBackoff fn (whole attempts) delay w)) = 1
       \<and> delays (events_of (withExponentialBackoff fn (whole attempts) delay w)) = []
       \<and> world_of (withExponentialBackoff fn (whole attempts) delay w) = w'"
  using assms
  by (simp add: withExponentialBackoff_def retry_loop_fatal outcome_of_def events_of_def world_of_def)

theorem fatal_error_propagates_after_one_call_witness:
  "outcome_of (withExponentialBackoff (always_rejects bad_request :: (unit, nat) operation) (whole 3) 1000 ())
     = Rethrown bad_request
   \<and> events_of (withExponentialBackoff (always_rejects bad_request :: (unit, nat) operation) (whole 3) 1000 ())
     = [Invoked]"
proof -
  have "\<not> isRetriableError bad_request"
    by (simp add: isRetriableError_def bad_request_def)
  moreover have "(always_rejects bad_request :: (unit, nat) operation) () = (Inl bad_request, ())"
    by (simp add: always_rejects_def)
  ultimately show ?thesis
    using fatal_error_propagates_after_one_call
      [of 3 "always_rejects bad_request :: (unit, nat) operation" "()" bad_request "()" 1000]
    by simp
qed

text \<open>
  C5. When the operation resolves on attempt \<open>k \<le> attempts\<close> after \<open>k - 1\<close> retriable
  rejections, the executor returns that value; the operation has been called exactly \<open>k\<close>
  times, the successful call is the last effect, and the world is the one that call left.
\<close>

theorem success_after_retriable_failures:
  assumes "1 \<le> k" and "int k \<le> attempts"
    and "fails_retriably fn (k - 1) w"
    and "fn (world_after fn (k - 1) w) = (Inr v, w')"
  shows "outcome_of (withExponentialBackoff fn (whole attempts) delay w) = Returned v
       \<and> invocations (events_of (withExponentialBackoff fn (whole attempts) delay w)) = k
       \<and> last (events_of (withExponentialBackoff fn (whole attempts) delay w)) = Invoked
       \<and> delays (events_of (withExponentialBackoff fn (whole attempts) delay w))
           = map (\<lambda>j. delay * 2 ^ j) [0..<k - 1]
       \<and> world_of (withExponentialBackoff fn (whole attempts) delay w) = w'"
  using assms by (rule backoff_resolves_at)

theorem success_after_retriable_failures_witness:
  "outcome_of (withExponentialBackoff flaky (whole 3) 1000 0) = Returned ''done''
   \<and> invocations (events_of (withExponentialBackoff flaky (whole 3) 1000 0)) = 3
   \<and> delays (events_of (withExponentialBackoff flaky (whole 3) 1000 0)) = [1000, 2000]
   \<and> world_of (withExponentialBackoff flaky (whole 3) 1000 0) = 3"
proof -
  have h1: "(1::nat) \<le> 3" and h2: "int 3 \<le> 3" by simp_all
  have h3: "fails_retriably flaky (3 - 1) 0"
    by (simp add: numeral_2_eq_2 flaky_def rate_limited_retriable)
  have h4: "flaky (world_after flaky (3 - 1) 0) = (Inr ''done'', 3)"
    by (simp add: numeral_2_eq_2 numeral_3_eq_3 flaky_def)
  from success_after_retriable_failures [OF h1 h2 h3 h4, of 1000]
  show ?thesis by (simp add: upt_rec)
qed

text \<open>
  C6. Let the remote call of attempt \<open>k \<le> 3\<close> of editImageGemini succeed with
  \<open>response\<close>, the \<open>k - 1\<close> attempts before it having been rejected with retriable errors.
  Then the function returns, without throwing: if a part of the response carries
  \<open>inlineData\<close> and no part before it does, the result is the data URI
  \<open>data:image/png;base64,\<close> followed by that part's data, whatever MIME type the part
  declares; if no part carries \<open>inlineData\<close>, the result is \<open>undefined\<close>.
\<close>

theorem edit_image_returns_first_inline_part:
  assumes "1 \<le> k" and "k \<le> 3"
    and "fails_retriably (editImage_operation remote prompt b64 mime) (k - 1) w"
    and "world_after (editImage_operation remote prompt b64 mime) (k - 1) w = (s, c)"
    and "remote (generateContent_parameters prompt b64 mime) s = (Inr response, s')"
  shows "(\<forall>pre p post d.
            response_parts response = pre @ p # post
            \<and> (\<forall>q \<in> set pre. inlineData q = None) \<and> inlineData p = Some d \<longrightarrow>
            outcome_of (editImageGemini remote prompt b64 mime w)
              = Returned (Some (''data:image/png;base64,'' @ interpolate (data d))))
       \<and> ((\<forall>q \<in> set (response_parts response). inlineData q = None) \<longrightarrow>
            outcome_of (editImageGemini remote prompt b64 mime w) = Returned None)
       \<and> thrown_value (outcome_of (editImageGemini remote prompt b64 mime w)) = None
       \<and> invocations (events_of (editImageGemini remote prompt b64 mime w)) = k
       \<and> world_of (editImageGemini remote prompt b64 mime w) = (s', c)"
proof -
  have "editImage_operation remote prompt b64 mime
          (world_after (editImage_operation remote prompt b64 mime) (k - 1) w)
        = (Inr (first_inline_image (response_parts response)), (s', c))"
    unfolding assms(4) using assms(5) by (rule editImage_operation_resolves)
  from backoff_resolves_at [OF assms(1) _ assms(3) this, of 3 1000] assms(2)
  have run: "outcome_of (editImageGemini remote prompt b64 mime w)
        = Returned (first_inline_image (response_parts response))"
      "invocations (events_of (editImageGemini remote prompt b64 mime w)) = k"
      "world_of (editImageGemini remote prompt b64 mime w) = (s', c)"
    by (simp_all add: editImageGemini_def withExponentialBackoff_default_def)
  have first: "outcome_of (editImageGemini remote prompt b64 mime w)
        = Returned (Some (''data:image/png;base64,'' @ interpolate (data d)))"
    if "response_parts response = pre @ p # post"
       "\<forall>q \<in> set pre. inlineData q = None" "inlineData p = Some d" for pre p post d
    unfolding run(1) that(1) using that(2,3) by (simp only: first_inline_image_first)
  have none: "outcome_of (editImageGemini remote prompt b64 mime w) = Returned None"
    if "\<forall>q \<in> set (response_parts response). inlineData q = None"
    unfolding run(1) using that by (simp only: first_inline_image_none)
  have thrown: "thrown_value (outcome_of (editImageGemini remote prompt b64 mime w)) = None"
    by (simp add: run(1))
  from first none thrown run(2,3) show ?thesis by blast
qed

theorem edit_image_returns_first_inline_part_witness:
  "outcome_of (editImageGemini_default (recording_stub text_then_image) ''make it blue'' ''AAAA'' ([], []))
     = Returned (Some ''data:image/png;base64,/9j/4AAQ'')
   \<and> outcome_of (editImageGemini_default (recording_stub text_only) ''make it blue'' ''AAAA'' ([], []))
     = Returned None"
proof -
  let ?q = "generateContent_parameters ''make it blue'' ''AAAA'' ''image/png''"
  have k: "(1::nat) \<le> 1" "(1::nat) \<le> 3" by simp_all
  have f: "fails_retriably (editImage_operation (recording_stub r) ''make it blue'' ''AAAA'' ''image/png'')
      (1 - 1) ([], [])" for r :: generate_content_response by simp
  have w: "world_after (editImage_operation (recording_stub r) ''make it blue'' ''AAAA'' ''image/png'')
      (1 - 1) ([], []) = ([], [])" for r :: generate_content_response by simp
  have r: "recording_stub r ?q [] = (Inr r, [?q])" for r :: generate_content_response
    by (simp add: recording_stub_def)
  let ?t = "\<lparr>part_text = Some ''Here is the edit.'', inlineData = None\<rparr>"
  let ?d = "\<lparr>mimeType = Some ''image/jpeg'', data = Some ''/9j/4AAQ''\<rparr>"
  let ?p = "\<lparr>part_text = None, inlineData = Some ?d\<rparr>"
  have p1: "response_parts text_then_image = [?t] @ ?p # []
      \<and> (\<forall>q \<in> set [?t]. inlineData q = None) \<and> inlineData ?p = Some ?d"
    by (simp add: response_parts_def text_then_image_def)
  have p2: "\<forall>q \<in> set (response_parts text_only). inlineData q = None"
    by (simp add: response_parts_def text_only_def)
  from edit_image_returns_first_inline_part [OF k f w r, of text_then_image]
  have "\<forall>pre p post d.
          response_parts text_then_image = pre @ p # post
          \<and> (\<forall>q \<in> set pre. inlineData q = None) \<and> inlineData p = Some d \<longrightarrow>
          outcome_of (editImageGemini (recording_stub text_then_image) ''make it blue'' ''AAAA''
            ''image/png'' ([], []))
            = Returned (Some (''data:image/png;base64,'' @ interpolate (data d)))"
    by (rule conjunct1)
  from this [rule_format, of "[?t]" ?p "[]" ?d, OF p1]
  have "outcome_of (editImageGemini (recording_stub text_then_image) ''make it blue'' ''AAAA''
          ''image/png'' ([], []))
        = Returned (Some ''data:image/png;base64,/9j/4AAQ'')"
    by simp
  moreover from edit_image_returns_first_inline_part [OF k f w r, of text_only] p2
  have "outcome_of (editImageGemini (recording_stub text_only) ''make it blue'' ''AAAA''
          ''image/png'' ([], [])) = Returned None"
    by blast
  ultimately show ?thesis by (simp add: editImageGemini_default_def)
qed

text \<open>
  C7. Let the remote call of attempt \<open>k \<le> 3\<close> of generateImageGemini succeed with
  \<open>response\<close>, the \<open>k - 1\<close> attempts before it having been rejected with retriable errors.
  If the response has no generated images (\<open>generatedImages\<close> missing or empty), or its
  first image has no or empty \<open>imageBytes\<close>, the function returns \<open>undefined\<close> and does
  not throw; if the first image has non-empty \<open>imageBytes\<close>, it returns the data URI
  \<open>data:image/png;base64,\<close> followed by those bytes.
\<close>

theorem generate_image_absent_or_data_uri:
  assumes "1 \<le> k" and "k \<le> 3"
    and "fails_retriably (generateImage_operation remote prompt ratio) (k - 1) w"
    and "world_after (generateImage_operation remote prompt ratio) (k - 1) w = (s, c)"
    and "remote (generateImages_parameters prompt ratio) s = (Inr response, s')"
  shows "(generatedImages response = None \<or> generatedImages response = Some [] \<longrightarrow>
            outcome_of (generateImageGemini remote prompt ratio w) = Returned None)
       \<and> (\<forall>first rest img.
            generatedImages response = Some (first # rest) \<and> gen_image first = Some img
            \<and> (imageBytes img = None \<or> imageBytes img = Some []) \<longrightarrow>
            outcome_of (generateImageGemini remote prompt ratio w) = Returned None)
       \<and> (\<forall>first rest img bytes.
            generatedImages response = Some (first # rest) \<and> gen_image first = Some img
            \<and> imageBytes img = Some bytes \<and> bytes \<noteq> [] \<longrightarrow>
            outcome_of (generateImageGemini remote prompt ratio w)
              = Returned (Some (''data:image/png;base64,'' @ bytes)))
       \<and> (\<forall>result. generated_image_result response = Inr result \<longrightarrow>
            outcome_of (generateImageGemini remote prompt ratio w) = Returned result
            \<and> invocations (events_of (generateImageGemini remote prompt ratio w)) = k
            \<and> world_of (generateImageGemini remote prompt ratio w) = (s', c))"
proof -
  have run: "outcome_of (generateImageGemini remote prompt ratio w) = Returned result
      \<and> invocations (events_of (generateImageGemini remote prompt ratio w)) = k
      \<and> world_of (generateImageGemini remote prompt ratio w) = (s', c)"
    if "generated_image_result response = Inr result" for result
  proof -
    have "generateImage_operation remote prompt ratio
            (world_after (generateImage_operation remote prompt ratio) (k - 1) w)
          = (Inr result, (s', c))"
      unfolding assms(4) using assms(5) that by (rule generateImage_operation_resolves)
    from backoff_resolves_at [OF assms(1) _ assms(3) this, of 3 1000] assms(2)
    show ?thesis
      by (simp add: generateImageGemini_def withExponentialBackoff_default_def)
  qed
  have none: "generated_image_result response = Inr None"
    if "generatedImages response = None \<or> generatedImages response = Some []"
    using that by (auto simp: generated_image_result_def)
  have empty: "generated_image_result response = Inr None"
    if "generatedImages response = Some (first # rest)" "gen_image first = Some img"
       "imageBytes img = None \<or> imageBytes img = Some []" for first rest img
    using that by (auto simp: generated_image_result_def)
  have present: "generated_image_result response = Inr (Some (''data:image/png;base64,'' @ bytes))"
    if "generatedImages response = Some (first # rest)" "gen_image first = Some img"
       "imageBytes img = Some bytes" "bytes \<noteq> []" for first rest img bytes
    using that by (simp add: generated_image_result_def)
  show ?thesis
    using run none empty present by blast
qed

theorem generate_image_absent_or_data_uri_witness:
  "outcome_of (generateImageGemini (recording_stub zero_images) ''a cat'' ''1:1'' ([], []))
     = Returned None
   \<and> outcome_of (generateImageGemini (recording_stub empty_bytes) ''a cat'' ''1:1'' ([], []))
     = Returned None
   \<and> outcome_of (generateImageGemini (recording_stub one_png) ''a cat'' ''1:1'' ([], []))
     = Returned (Some ''data:image/png;base64,iVBORw0KGgo='')"
proof -
  have k: "(1::nat) \<le> 1" "(1::nat) \<le> 3" by simp_all
  have f: "fails_retriably (generateImage_operation (recording_stub r) ''a cat'' ''1:1'') (1 - 1) ([], [])"
    for r :: generate_images_response by simp
  have w: "world_after (generateImage_operation (recording_stub r) ''a cat'' ''1:1'') (1 - 1) ([], [])
      = ([], [])" for r :: generate_images_response by simp
  have r: "recording_stub r (generateImages_parameters ''a cat'' ''1:1'') []
      = (Inr r, [generateImages_parameters ''a cat'' ''1:1''])" for r :: generate_images_response
    by (simp add: recording_stub_def)
  from generate_image_absent_or_data_uri [OF k f w r, of zero_images]
       generate_image_absent_or_data_uri [OF k f w r, of empty_bytes]
       generate_image_absent_or_data_uri [OF k f w r, of one_png]
  show ?thesis
    by (simp add: zero_images_def empty_bytes_def one_png_def)
qed

text \<open>
  C8. The chat parameters built from a history carry the fixed persona as system
  instruction and exactly the prior turns, in order, each with its role (\<open>user\<close> or
  \<open>model\<close>) and its text. Every request sendChatMessageGemini sends to the service
  consists of these parameters and the new message, one request per call of the
  operation. When the call of attempt \<open>k \<le> 3\<close> succeeds, after \<open>k - 1\<close> retriable
  rejections, the function returns the response's text as it is, \<open>undefined\<close> when the
  response has none.
\<close>

theorem chat_context_and_reply:
  "systemInstruction (chat_create_parameters history)
     = \<lparr>parts = Some [\<lparr>part_text = Some persona, inlineData = None\<rparr>], content_role = None\<rparr>
   \<and> length (chat_history (chat_create_parameters history)) = length history
   \<and> (\<forall>i < length history.
        chat_history (chat_create_parameters history) ! i
          = \<lparr>parts = Some [\<lparr>part_text = Some (msg_text (history ! i)), inlineData = None\<rparr>],
             content_role = Some (case role (history ! i) of User \<Rightarrow> ''user'' | Model \<Rightarrow> ''model'')\<rparr>)
   \<and> snd (fst (world_of (sendChatMessageGemini (recording remote) history newMessage ((s, seen), c))))
       = seen @ replicate
           (invocations (events_of
              (sendChatMessageGemini (recording remote) history newMessage ((s, seen), c))))
           (chat_create_parameters history, newMessage)
   \<and> (1 \<le> k \<and> k \<le> 3
        \<and> fails_retriably (sendChatMessage_operation remote history newMessage) (k - 1) w
        \<and> world_after (sendChatMessage_operation remote history newMessage) (k - 1) w = (s, c)
        \<and> remote (chat_create_parameters history) newMessage s = (Inr response, s') \<longrightarrow>
        outcome_of (sendChatMessageGemini remote history newMessage w) = Returned (response_text response)
        \<and> (response_text response = None \<longrightarrow>
             outcome_of (sendChatMessageGemini remote history newMessage w) = Returned None)
        \<and> invocations (events_of (sendChatMessageGemini remote history newMessage w)) = k
        \<and> world_of (sendChatMessageGemini remote history newMessage w) = (s', c))"
proof (intro conjI impI allI)
  show "systemInstruction (chat_create_parameters history)
     = \<lparr>parts = Some [\<lparr>part_text = Some persona, inlineData = None\<rparr>], content_role = None\<rparr>"
    by (simp add: chat_create_parameters_def)
  show "length (chat_history (chat_create_parameters history)) = length history"
    by (simp add: chat_create_parameters_def)
  show "chat_history (chat_create_parameters history) ! i
          = \<lparr>parts = Some [\<lparr>part_text = Some (msg_text (history ! i)), inlineData = None\<rparr>],
             content_role = Some (case role (history ! i) of User \<Rightarrow> ''user'' | Model \<Rightarrow> ''model'')\<rparr>"
    if "i < length history" for i
    using that by (simp add: chat_create_parameters_def history_entry_def split: chat_role.splits)
  show "snd (fst (world_of (sendChatMessageGemini (recording remote) history newMessage ((s, seen), c))))
       = seen @ replicate
           (invocations (events_of
              (sendChatMessageGemini (recording remote) history newMessage ((s, seen), c))))
           (chat_create_parameters history, newMessage)"
    using chat_requests [of remote history newMessage "((s, seen), c)"] by simp
next
  assume a: "1 \<le> k \<and> k \<le> 3
        \<and> fails_retriably (sendChatMessage_operation remote history newMessage) (k - 1) w
        \<and> world_after (sendChatMessage_operation remote history newMessage) (k - 1) w = (s, c)
        \<and> remote (chat_create_parameters history) newMessage s = (Inr response, s')"
  then have "sendChatMessage_operation remote history newMessage
          (world_after (sendChatMessage_operation remote history newMessage) (k - 1) w)
        = (Inr (response_text response), (s', c))"
    by (simp add: sendChatMessage_operation_resolves)
  from backoff_resolves_at
         [where fn = "sendChatMessage_operation remote history newMessage" and k = k and w = w
            and attempts = 3 and delay = 1000, OF _ _ _ this] a
  have run: "outcome_of (sendChatMessageGemini remote history newMessage w) = Returned (response_text response)"
      "invocations (events_of (sendChatMessageGemini remote history newMessage w)) = k"
      "world_of (sendChatMessageGemini remote history newMessage w) = (s', c)"
    by (simp_all add: sendChatMessageGemini_def withExponentialBackoff_default_def)
  show "outcome_of (sendChatMessageGemini remote history newMessage w) = Returned (response_text response)"
    by (rule run)
  show "invocations (events_of (sendChatMessageGemini remote history newMessage w)) = k"
    by (rule run)
  show "world_of (sendChatMessageGemini remote history newMessage w) = (s', c)"
    by (rule run)
  show "outcome_of (sendChatMessageGemini remote history newMessage w) = Returned None"
    if "response_text response = None"
    using that run(1) by simp
qed

theorem chat_context_and_reply_witness:
  "outcome_of (sendChatMessageGemini (recording (replying text_only)) hi_hello ''how are you?''
       (((), []), []))
     = Returned (Some ''I am well.'')
   \<and> snd (fst (world_of (sendChatMessageGemini (recording (replying text_only)) hi_hello
       ''how are you?'' (((), []), []))))
     = [(\<lparr>chat_model = ''gemini-2.5-flash'',
          systemInstruction =
            \<lparr>parts = Some [\<lparr>part_text = Some persona, inlineData = None\<rparr>], content_role = None\<rparr>,
          chat_history =
            [\<lparr>parts = Some [\<lparr>part_text = Some ''hi'', inlineData = None\<rparr>],
              content_role = Some ''user''\<rparr>,
             \<lparr>parts = Some [\<lparr>part_text = Some ''hello'', inlineData = None\<rparr>],
              content_role = Some ''model''\<rparr>]\<rparr>,
         ''how are you?'')]"
proof -
  let ?op = "sendChatMessage_operation (recording (replying text_only)) hi_hello ''how are you?''"
  let ?q = "(chat_create_parameters hi_hello, ''how are you?'')"
  have h: "(1::nat) \<le> 1 \<and> (1::nat) \<le> 3
      \<and> fails_retriably ?op (1 - 1) (((), []), [])
      \<and> world_after ?op (1 - 1) (((), []), []) = (((), []), [])
      \<and> recording (replying text_only) (chat_create_parameters hi_hello) ''how are you?'' ((), [])
          = (Inr text_only, ((), [?q]))"
    by (simp add: recording_def replying_def)
  from chat_context_and_reply
         [where remote = "recording (replying text_only)" and history = hi_hello
            and newMessage = "''how are you?''" and k = 1 and w = "(((), []), [])"
            and s = "((), [])" and c = "[]" and response = text_only and s' = "((), [?q])"] h
  have run: "outcome_of (sendChatMessageGemini (recording (replying text_only)) hi_hello
        ''how are you?'' (((), []), [])) = Returned (response_text text_only)"
      "invocations (events_of (sendChatMessageGemini (recording (replying text_only)) hi_hello
        ''how are you?'' (((), []), []))) = 1"
    by blast+
  from chat_context_and_reply
         [where remote = "replying text_only" and history = hi_hello
            and newMessage = "''how are you?''" and s = "()" and seen = "[]" and c = "[]"]
  have "snd (fst (world_of (sendChatMessageGemini (recording (replying text_only)) hi_hello
        ''how are you?'' (((), []), []))))
      = [] @ replicate (invocations (events_of
           (sendChatMessageGemini (recording (replying text_only)) hi_hello ''how are you?''
              (((), []), [])))) ?q"
    by blast
  with run show ?thesis
    by (simp add: text_only_def chat_create_parameters_def history_entry_def hi_hello_def)
qed

text \<open>
  C9, as stated, fails: \<open>attempts \<le> 0\<close> is not the only input on which the error
  "Maximum retry attempts reached." is thrown. With \<open>attempts = 2.5\<close> and an operation
  that rejects with status 429 on every call, the counter values 0, 1 and 2 are below 2.5
  and none of them equals 1.5, so the operation is called three times, each rejection is
  retried, and line 30 throws.
\<close>

theorem defensive_error_with_fractional_attempts_counterexample:
  "\<not> (5 / 2 :: rat) \<le> 0
   \<and> outcome_of (withExponentialBackoff (always_rejects rate_limited :: (unit, nat) operation)
         (Num (5 / 2)) 1000 ()) = MaxAttemptsReached
   \<and> invocations (events_of (withExponentialBackoff
         (always_rejects rate_limited :: (unit, nat) operation) (Num (5 / 2)) 1000 ())) = 3"
proof -
  have "withExponentialBackoff (always_rejects rate_limited :: (unit, nat) operation) (Num (5 / 2)) 1000 ()
      = (MaxAttemptsReached,
         [Invoked, Warned 1 1000 rate_limited, Slept 1000,
          Invoked, Warned 2 2000 rate_limited, Slept 2000,
          Invoked, Warned 3 4000 rate_limited, Slept 4000], ())"
    by (simp add: withExponentialBackoff_def retry_loop.simps always_rejects_def
        rate_limited_retriable)
  then show ?thesis by (simp add: outcome_of_def events_of_def)
qed

text \<open>
  C9, amended. With a number \<open>attempts \<le> 0\<close> the loop body never runs: the operation is
  not called, the world is untouched and the executor throws the error
  "Maximum retry attempts reached.". Among whole numbers of attempts this is the only case
  in which that error is thrown.
\<close>

theorem defensive_error_iff_no_whole_attempts:
  "(r \<le> 0 \<longrightarrow>
      outcome_of (withExponentialBackoff fn (Num r) delay w) = MaxAttemptsReached
    \<and> thrown_value (outcome_of (withExponentialBackoff fn (Num r) delay w)) = Some max_attempts_error
    \<and> events_of (withExponentialBackoff fn (Num r) delay w) = []
    \<and> invocations (events_of (withExponentialBackoff fn (Num r) delay w)) = 0
    \<and> world_of (withExponentialBackoff fn (Num r) delay w) = w)
   \<and> (outcome_of (withExponentialBackoff fn (whole attempts) delay w) = MaxAttemptsReached
        \<longleftrightarrow> attempts \<le> 0)"
proof (intro conjI impI)
  assume "r \<le> 0"
  then have "withExponentialBackoff fn (Num r) delay w = (MaxAttemptsReached, [], w)"
    by (simp add: withExponentialBackoff_def retry_loop_step_done)
  then show "outcome_of (withExponentialBackoff fn (Num r) delay w) = MaxAttemptsReached"
    and "thrown_value (outcome_of (withExponentialBackoff fn (Num r) delay w)) = Some max_attempts_error"
    and "events_of (withExponentialBackoff fn (Num r) delay w) = []"
    and "invocations (events_of (withExponentialBackoff fn (Num r) delay w)) = 0"
    and "world_of (withExponentialBackoff fn (Num r) delay w) = w"
    by (simp_all add: outcome_of_def events_of_def world_of_def)
next
  show "outcome_of (withExponentialBackoff fn (whole attempts) delay w) = MaxAttemptsReached
        \<longleftrightarrow> attempts \<le> 0"
  proof (cases "attempts \<le> 0")
    case True
    then show ?thesis
      by (simp add: withExponentialBackoff_def retry_loop_done outcome_of_def)
  next
    case False
    then have "outcome_of (withExponentialBackoff fn (whole attempts) delay w) \<noteq> MaxAttemptsReached"
      by (simp add: withExponentialBackoff_def retry_loop_not_exhausted)
    with False show ?thesis by simp
  qed
qed

theorem defensive_error_iff_no_whole_attempts_witness:
  "outcome_of (withExponentialBackoff (always_rejects rate_limited :: (unit, nat) operation)
       (Num (- 1 / 2)) 1000 ()) = MaxAttemptsReached
   \<and> events_of (withExponentialBackoff (always_rejects rate_limited :: (unit, nat) operation)
       (Num (- 1 / 2)) 1000 ()) = []
   \<and> outcome_of (withExponentialBackoff (always_rejects rate_limited :: (unit, nat) operation)
       (whole 0) 1000 ()) = MaxAttemptsReached
   \<and> outcome_of (withExponentialBackoff (always_rejects rate_limited :: (unit, nat) operation)
       (whole 1) 1000 ()) \<noteq> MaxAttemptsReached"
  using defensive_error_iff_no_whole_attempts
          [of "- 1 / 2" "always_rejects rate_limited :: (unit, nat) operation" 1000 "()" 0]
        defensive_error_iff_no_whole_attempts
          [of "- 1 / 2" "always_rejects rate_limited :: (unit, nat) operation" 1000 "()" 1]
  by simp

text \<open>
  C10. Let the remote call of attempt \<open>k \<le> 3\<close> of generateImageGemini succeed with a
  response whose \<open>generatedImages[0]\<close> exists but has no \<open>image\<close>. Then the unguarded
  access \<open>.image.imageBytes\<close> throws a TypeError; it is printed, is not retriable, and
  is what the function throws, instead of returning \<open>undefined\<close>.
\<close>

theorem generate_image_missing_image_throws_type_error:
  assumes "1 \<le> k" and "k \<le> 3"
    and "fails_retriably (generateImage_operation remote prompt ratio) (k - 1) w"
    and "world_after (generateImage_operation remote prompt ratio) (k - 1) w = (s, c)"
    and "remote (generateImages_parameters prompt ratio) s = (Inr response, s')"
    and "generatedImages response = Some (first # rest)" and "gen_image first = None"
  shows "generated_image_result response = Inl imageBytes_of_undefined
       \<and> err_name imageBytes_of_undefined = ''TypeError''
       \<and> outcome_of (generateImageGemini remote prompt ratio w) = Rethrown imageBytes_of_undefined
       \<and> outcome_of (generateImageGemini remote prompt ratio w) \<noteq> Returned None
       \<and> invocations (events_of (generateImageGemini remote prompt ratio w)) = k
       \<and> world_of (generateImageGemini remote prompt ratio w)
           = (s', console_error ''Imagen image generation error:'' imageBytes_of_undefined c)"
proof -
  have res: "generated_image_result response = Inl imageBytes_of_undefined"
    using assms(6,7) by (simp add: generated_image_result_def)
  have "generateImage_operation remote prompt ratio
          (world_after (generateImage_operation remote prompt ratio) (k - 1) w)
        = (Inl imageBytes_of_undefined,
           (s', console_error ''Imagen image generation error:'' imageBytes_of_undefined c))"
    unfolding assms(4) using assms(5) res by (rule generateImage_operation_throws)
  from backoff_rejects_at [OF assms(1) _ assms(3) this imageBytes_of_undefined_fatal, of 3 1000]
       assms(2) res
  show ?thesis
    by (simp add: generateImageGemini_def withExponentialBackoff_default_def
        imageBytes_of_undefined_def)
qed

theorem generate_image_missing_image_throws_type_error_witness:
  "outcome_of (generateImageGemini (recording_stub filtered_image) ''a cat'' ''1:1'' ([], []))
     = Rethrown imageBytes_of_undefined
   \<and> invocations (events_of
        (generateImageGemini (recording_stub filtered_image) ''a cat'' ''1:1'' ([], []))) = 1"
proof -
  have k: "(1::nat) \<le> 1" "(1::nat) \<le> 3" by simp_all
  have f: "fails_retriably (generateImage_operation (recording_stub filtered_image) ''a cat'' ''1:1'')
      (1 - 1) ([], [])" by simp
  have w: "world_after (generateImage_operation (recording_stub filtered_image) ''a cat'' ''1:1'')
      (1 - 1) ([], []) = ([], [])" by simp
  have r: "recording_stub filtered_image (generateImages_parameters ''a cat'' ''1:1'') []
      = (Inr filtered_image, [generateImages_parameters ''a cat'' ''1:1''])"
    by (simp add: recording_stub_def)
  have g: "generatedImages filtered_image = Some (\<lparr>gen_image = None\<rparr> # [])"
    and i: "gen_image \<lparr>gen_image = None\<rparr> = None"
    by (simp_all add: filtered_image_def)
  from generate_image_missing_image_throws_type_error [OF k f w r g i]
  show ?thesis by simp
qed

end
